theory Spec2Isabelle
  imports Main "HOL-Library.Log_Nat"
begin

section \<open>FocusLite: the storage module and the Pomodoro timer\<close>

text \<open>
  The development follows two modules of the application. The storage module wraps the
  browser's \<^verbatim>\<open>localStorage\<close> behind \<^verbatim>\<open>saveData\<close>/\<^verbatim>\<open>loadData\<close>; the timer module
  \<^verbatim>\<open>PomodoroTimer\<close> keeps a \<^verbatim>\<open>timerState\<close> object, a \<^verbatim>\<open>config\<close> object and the handle
  \<^verbatim>\<open>timerInterval\<close> of the one-second interval that drives \<^verbatim>\<open>tick\<close>.

  Mutation is explicit state passing. Calls that only touch the page (\<^verbatim>\<open>updateDisplay\<close>,
  \<^verbatim>\<open>updateButtonStates\<close>, \<^verbatim>\<open>updateDisplayClass\<close>, \<^verbatim>\<open>updateModeButtons\<close>,
  \<^verbatim>\<open>updateCyclesDisplay\<close>, \<^verbatim>\<open>playNotification\<close>, \<^verbatim>\<open>showBrowserNotification\<close>,
  \<^verbatim>\<open>console.log\<close>) read the state and never write it; they are taken to return normally
  and are left out.
\<close>

subsection \<open>Numbers\<close>

text \<open>
  A JavaScript number is an IEEE 754 double: a finite value, given here by the rational it
  denotes, or \<^verbatim>\<open>NaN\<close>, \<^verbatim>\<open>Infinity\<close>, \<^verbatim>\<open>-Infinity\<close>. The two zeros are one value:
  the program only compares, adds and subtracts, and prints through \<^verbatim>\<open>JSON.stringify\<close>,
  none of which tells them apart. The durations and the cycle count are such numbers; the
  program never checks that they are whole or in any range.
\<close>

datatype js_number = Fin rat | NaN | PosInf | NegInf

text \<open>\<open>pow2 e\<close> is \<open>2\<close> to the power \<open>e\<close>, for any integer \<open>e\<close>.\<close>

definition pow2 :: "int \<Rightarrow> rat" where
  "pow2 e = (if 0 \<le> e then 2 ^ nat e else 1 / 2 ^ nat (- e))"

text \<open>
  \<open>binade a\<close> is the exponent \<open>e\<close> with \<open>pow2 e \<le> a < pow2 (e + 1)\<close>, for \<open>a > 0\<close>
  (\<open>floorlog 2 n\<close> is the number of binary digits of \<open>n\<close>).
\<close>

definition binade :: "rat \<Rightarrow> int" where
  "binade a =
     (if 1 \<le> a then int (floorlog 2 (nat \<lfloor>a\<rfloor>)) - 1
      else - int (floorlog 2 (nat (\<lceil>1 / a\<rceil> - 1))))"

definition round_half_even :: "rat \<Rightarrow> int" where
  "round_half_even q =
     (let f = \<lfloor>q\<rfloor>; d = q - of_int f
      in if d < 1 / 2 then f
         else if 1 / 2 < d then f + 1
         else if even f then f else f + 1)"

text \<open>
  The double nearest to an exact result, ties to the even significand: 53 significant
  bits, the exponent not below \<open>-1022\<close> (below that the spacing stays \<open>pow2 (-1074)\<close>),
  and an infinity when the rounded value reaches \<open>2 ^ 1024\<close>.
\<close>

definition round_double :: "rat \<Rightarrow> js_number" where
  "round_double x =
     (if x = 0 then Fin 0
      else
        let e = max (binade \<bar>x\<bar>) (- 1022);
            ulp = pow2 (e - 52);
            r = of_int (round_half_even (x / ulp)) * ulp
        in if e < 1023 then Fin r
           else if 2 ^ 1024 \<le> \<bar>r\<bar> then (if 0 < x then PosInf else NegInf)
           else Fin r)"

text \<open>\<^verbatim>\<open>x--\<close>, \<^verbatim>\<open>x++\<close> and \<^verbatim>\<open>x > 0\<close> on a number.\<close>

fun decrement :: "js_number \<Rightarrow> js_number" where
  "decrement (Fin x) = round_double (x - 1)"
| "decrement NaN = NaN"
| "decrement PosInf = PosInf"
| "decrement NegInf = NegInf"

fun increment :: "js_number \<Rightarrow> js_number" where
  "increment (Fin x) = round_double (x + 1)"
| "increment NaN = NaN"
| "increment PosInf = PosInf"
| "increment NegInf = NegInf"

fun positive :: "js_number \<Rightarrow> bool" where
  "positive (Fin x) = (0 < x)"
| "positive NaN = False"
| "positive PosInf = True"
| "positive NegInf = False"

subsection \<open>Values, stored text and localStorage\<close>

text \<open>JavaScript values as far as JSON carries them.\<close>

datatype js_value =
    JNull
  | JBool bool
  | JNum js_number
  | JStr string
  | JArr "js_value list"
  | JObj "(string \<times> js_value) list"

text \<open>
  \<^verbatim>\<open>localStorage\<close> holds text. A text is represented by what \<^verbatim>\<open>JSON.parse\<close> makes of
  it: the value it denotes, or \<open>Malformed\<close> when \<^verbatim>\<open>JSON.parse\<close> throws a SyntaxError.
  \<^verbatim>\<open>JSON.stringify\<close> of a value is the text that denotes it, where a number that is
  not finite is written \<^verbatim>\<open>null\<close>.
\<close>

datatype stored_text = Json js_value | Malformed

datatype js_error = SecurityError | QuotaExceededError | SyntaxError

text \<open>
  The browser may refuse access to the store (\<open>readable\<close>, \<open>writable\<close>): then
  \<^verbatim>\<open>getItem\<close>, respectively \<^verbatim>\<open>setItem\<close>, throws.
\<close>

record local_storage =
  items :: "string \<Rightarrow> stored_text option"
  readable :: bool
  writable :: bool

definition getItem :: "local_storage \<Rightarrow> string \<Rightarrow> js_error + stored_text option" where
  "getItem ls key = (if readable ls then Inr (items ls key) else Inl SecurityError)"

definition setItem :: "local_storage \<Rightarrow> string \<Rightarrow> stored_text \<Rightarrow> js_error + local_storage" where
  "setItem ls key txt =
     (if writable ls then Inr (ls\<lparr>items := (items ls)(key \<mapsto> txt)\<rparr>)
      else Inl QuotaExceededError)"

definition JSON_parse :: "stored_text \<Rightarrow> js_error + js_value" where
  "JSON_parse txt = (case txt of Json v \<Rightarrow> Inr v | Malformed \<Rightarrow> Inl SyntaxError)"

primrec serializable :: "js_value \<Rightarrow> js_value" where
  "serializable JNull = JNull"
| "serializable (JBool b) = JBool b"
| "serializable (JNum x) = (case x of Fin r \<Rightarrow> JNum (Fin r) | _ \<Rightarrow> JNull)"
| "serializable (JStr s) = JStr s"
| "serializable (JArr vs) = JArr (map serializable vs)"
| "serializable (JObj kvs) = JObj (map (map_prod id serializable) kvs)"

definition JSON_stringify :: "js_value \<Rightarrow> stored_text" where
  "JSON_stringify v = Json (serializable v)"

subsection \<open>The storage module\<close>

definition TASKS :: string where
  "TASKS = ''focuslite_tasks''"

definition TIMER_CONFIG :: string where
  "TIMER_CONFIG = ''focuslite_timer_config''"

definition CYCLES :: string where
  "CYCLES = ''focuslite_cycles''"

text \<open>
  \<^verbatim>\<open>saveData\<close>: the body is a \<^verbatim>\<open>try\<close> whose \<^verbatim>\<open>catch\<close> only logs, so a failed write
  leaves the store as it was.
\<close>

definition saveData :: "local_storage \<Rightarrow> string \<Rightarrow> js_value \<Rightarrow> local_storage" where
  "saveData ls key data =
     (case setItem ls key (JSON_stringify data) of
        Inl e \<Rightarrow> ls
      | Inr ls' \<Rightarrow> ls')"

text \<open>
  \<^verbatim>\<open>loadData\<close>: a missing key gives the default; otherwise the parsed text is returned
  as it is; an exception of \<^verbatim>\<open>getItem\<close> or \<^verbatim>\<open>JSON.parse\<close> is caught and gives the
  default.
\<close>

definition loadData :: "local_storage \<Rightarrow> string \<Rightarrow> js_value \<Rightarrow> js_value" where
  "loadData ls key defaultValue =
     (case getItem ls key of
        Inl e \<Rightarrow> defaultValue
      | Inr None \<Rightarrow> defaultValue
      | Inr (Some txt) \<Rightarrow>
          (case JSON_parse txt of
             Inl e \<Rightarrow> defaultValue
           | Inr parsedData \<Rightarrow> parsedData))"

definition saveCycles :: "local_storage \<Rightarrow> js_number \<Rightarrow> local_storage" where
  "saveCycles ls n = saveData ls CYCLES (JNum n)"

definition loadCycles :: "local_storage \<Rightarrow> js_value" where
  "loadCycles ls = loadData ls CYCLES (JNum (Fin 0))"

subsection \<open>The timer module: state\<close>

text \<open>The mode is one of the strings \<^verbatim>\<open>'focus'\<close> and \<^verbatim>\<open>'break'\<close>.\<close>

datatype mode = Focus | Break

record timer_state =
  isRunning :: bool
  isPaused :: bool
  currentMode :: mode
  timeRemaining :: js_number
  totalTime :: js_number
  cycles :: js_number

record timer_config =
  focusTime :: js_number
  breakTime :: js_number
  autoSwitch :: bool
  soundEnabled :: bool

text \<open>
  The module's variables, and the part of the browser it acts on:
  \<^item> \<open>timerInterval\<close> is the variable holding the last handle returned by
    \<^verbatim>\<open>setInterval\<close> (\<open>None\<close> is \<^verbatim>\<open>null\<close>); \<^verbatim>\<open>clearInterval\<close> does not reset it;
  \<^item> \<open>liveIntervals\<close> are the handles of the intervals that still fire, oldest first,
    and \<open>nextHandle\<close> is the handle the next \<^verbatim>\<open>setInterval\<close> returns;
  \<^item> \<open>pendingSwitches\<close> counts the two-second \<^verbatim>\<open>setTimeout\<close> callbacks of
    \<^verbatim>\<open>handleTimerComplete\<close> that have not fired yet;
  \<^item> \<open>localStorage\<close> is the browser's store.
\<close>

record pomodoro =
  timerState :: timer_state
  config :: timer_config
  timerInterval :: "nat option"
  liveIntervals :: "nat list"
  nextHandle :: nat
  pendingSwitches :: nat
  localStorage :: local_storage

definition setInterval :: "pomodoro \<Rightarrow> pomodoro" where
  "setInterval s =
     s\<lparr>timerInterval := Some (nextHandle s),
       liveIntervals := liveIntervals s @ [nextHandle s],
       nextHandle := Suc (nextHandle s)\<rparr>"

definition clearInterval :: "pomodoro \<Rightarrow> pomodoro" where
  "clearInterval s =
     (case timerInterval s of
        None \<Rightarrow> s
      | Some h \<Rightarrow> s\<lparr>liveIntervals := removeAll h (liveIntervals s)\<rparr>)"

text \<open>The state the module is loaded with.\<close>

definition initial_timerState :: timer_state where
  "initial_timerState =
     \<lparr>isRunning = False, isPaused = False, currentMode = Focus,
      timeRemaining = Fin (25 * 60), totalTime = Fin (25 * 60), cycles = Fin 0\<rparr>"

definition initial_config :: timer_config where
  "initial_config =
     \<lparr>focusTime = Fin (25 * 60), breakTime = Fin (5 * 60), autoSwitch = True,
      soundEnabled = True\<rparr>"

definition initial :: "local_storage \<Rightarrow> pomodoro" where
  "initial ls =
     \<lparr>timerState = initial_timerState, config = initial_config,
      timerInterval = None, liveIntervals = [], nextHandle = 0,
      pendingSwitches = 0, localStorage = ls\<rparr>"

definition empty_storage :: local_storage where
  "empty_storage = \<lparr>items = Map.empty, readable = True, writable = True\<rparr>"

subsection \<open>The timer module: operations\<close>

definition startTimer :: "pomodoro \<Rightarrow> pomodoro" where
  "startTimer s =
     (if isRunning (timerState s) then s
      else setInterval
             (s\<lparr>timerState := (timerState s)\<lparr>isRunning := True, isPaused := False\<rparr>\<rparr>))"

definition pauseTimer :: "pomodoro \<Rightarrow> pomodoro" where
  "pauseTimer s =
     (if \<not> isRunning (timerState s) \<or> isPaused (timerState s) then s
      else clearInterval (s\<lparr>timerState := (timerState s)\<lparr>isPaused := True\<rparr>\<rparr>))"

definition resumeTimer :: "pomodoro \<Rightarrow> pomodoro" where
  "resumeTimer s =
     (if \<not> isPaused (timerState s) then s
      else startTimer (s\<lparr>timerState := (timerState s)\<lparr>isPaused := False\<rparr>\<rparr>))"

definition resetTimer :: "pomodoro \<Rightarrow> pomodoro" where
  "resetTimer s =
     (let s1 = (if isRunning (timerState s) then clearInterval s else s)
      in s1\<lparr>timerState := (timerState s1)
               \<lparr>isRunning := False, isPaused := False,
                timeRemaining := totalTime (timerState s1)\<rparr>\<rparr>)"

definition saveCyclesToStorage :: "pomodoro \<Rightarrow> pomodoro" where
  "saveCyclesToStorage s =
     s\<lparr>localStorage := saveCycles (localStorage s) (cycles (timerState s))\<rparr>"

text \<open>
  \<^verbatim>\<open>loadCyclesFromStorage\<close> takes the loaded value only when
  \<^verbatim>\<open>typeof savedCycles === 'number'\<close>.
\<close>

definition loadCyclesFromStorage :: "pomodoro \<Rightarrow> pomodoro" where
  "loadCyclesFromStorage s =
     (case loadCycles (localStorage s) of
        JNum savedCycles \<Rightarrow> s\<lparr>timerState := (timerState s)\<lparr>cycles := savedCycles\<rparr>\<rparr>
      | _ \<Rightarrow> s)"

definition handleTimerComplete :: "pomodoro \<Rightarrow> pomodoro" where
  "handleTimerComplete s =
     (let s1 = clearInterval s;
          s2 = s1\<lparr>timerState := (timerState s1)\<lparr>isRunning := False, isPaused := False\<rparr>\<rparr>;
          s3 = (if currentMode (timerState s2) = Focus
                then saveCyclesToStorage
                       (s2\<lparr>timerState := (timerState s2)
                              \<lparr>cycles := increment (cycles (timerState s2))\<rparr>\<rparr>)
                else s2)
      in if autoSwitch (config s3)
         then s3\<lparr>pendingSwitches := Suc (pendingSwitches s3)\<rparr>
         else s3)"

definition tick :: "pomodoro \<Rightarrow> pomodoro" where
  "tick s =
     (if positive (timeRemaining (timerState s))
      then s\<lparr>timerState := (timerState s)
                \<lparr>timeRemaining := decrement (timeRemaining (timerState s))\<rparr>\<rparr>
      else handleTimerComplete s)"

definition switchMode :: "mode \<Rightarrow> pomodoro \<Rightarrow> pomodoro" where
  "switchMode m s =
     (if m = currentMode (timerState s) then s
      else
        let s1 = (if isRunning (timerState s)
                  then (clearInterval s)
                         \<lparr>timerState := (timerState s)\<lparr>isRunning := False, isPaused := False\<rparr>\<rparr>
                  else s);
            total = (if m = Focus then focusTime (config s1) else breakTime (config s1))
        in s1\<lparr>timerState := (timerState s1)
                 \<lparr>currentMode := m, totalTime := total, timeRemaining := total\<rparr>\<rparr>)"

text \<open>
  \<^verbatim>\<open>updateConfig(newConfig)\<close>: \<^verbatim>\<open>Object.assign(config, newConfig)\<close> overwrites the
  properties that \<^verbatim>\<open>newConfig\<close> has, so the argument is a record of optional fields.
\<close>

record config_patch =
  newFocusTime :: "js_number option"
  newBreakTime :: "js_number option"
  newAutoSwitch :: "bool option"
  newSoundEnabled :: "bool option"

definition assign :: "timer_config \<Rightarrow> config_patch \<Rightarrow> timer_config" where
  "assign c p =
     \<lparr>focusTime = (case newFocusTime p of None \<Rightarrow> focusTime c | Some v \<Rightarrow> v),
      breakTime = (case newBreakTime p of None \<Rightarrow> breakTime c | Some v \<Rightarrow> v),
      autoSwitch = (case newAutoSwitch p of None \<Rightarrow> autoSwitch c | Some v \<Rightarrow> v),
      soundEnabled = (case newSoundEnabled p of None \<Rightarrow> soundEnabled c | Some v \<Rightarrow> v)\<rparr>"

definition config_value :: "timer_config \<Rightarrow> js_value" where
  "config_value c =
     JObj [(''focusTime'', JNum (focusTime c)), (''breakTime'', JNum (breakTime c)),
           (''autoSwitch'', JBool (autoSwitch c)), (''soundEnabled'', JBool (soundEnabled c))]"

definition saveTimerConfig :: "local_storage \<Rightarrow> timer_config \<Rightarrow> local_storage" where
  "saveTimerConfig ls c = saveData ls TIMER_CONFIG (config_value c)"

definition saveConfigToStorage :: "pomodoro \<Rightarrow> pomodoro" where
  "saveConfigToStorage s = s\<lparr>localStorage := saveTimerConfig (localStorage s) (config s)\<rparr>"

definition updateConfig :: "config_patch \<Rightarrow> pomodoro \<Rightarrow> pomodoro" where
  "updateConfig newConfig s =
     (let s1 = saveConfigToStorage (s\<lparr>config := assign (config s) newConfig\<rparr>)
      in if \<not> isRunning (timerState s1)
         then
           let total = (if currentMode (timerState s1) = Focus
                        then focusTime (config s1) else breakTime (config s1))
           in s1\<lparr>timerState := (timerState s1)\<lparr>totalTime := total, timeRemaining := total\<rparr>\<rparr>
         else s1)"

subsection \<open>The browser's timers\<close>

text \<open>
  One second passes: every interval that is live fires its callback, \<^verbatim>\<open>tick\<close>, once,
  oldest first; an interval cleared by an earlier callback of the same second does not
  fire.
\<close>

fun fireIntervals :: "nat list \<Rightarrow> pomodoro \<Rightarrow> pomodoro" where
  "fireIntervals [] s = s"
| "fireIntervals (h # hs) s =
     fireIntervals hs (if h \<in> set (liveIntervals s) then tick s else s)"

definition secondElapses :: "pomodoro \<Rightarrow> pomodoro" where
  "secondElapses s = fireIntervals (liveIntervals s) s"

text \<open>
  The callback that \<^verbatim>\<open>handleTimerComplete\<close> hands to \<^verbatim>\<open>setTimeout\<close>; it reads the
  mode when it fires.
\<close>

definition autoSwitchCallback :: "pomodoro \<Rightarrow> pomodoro" where
  "autoSwitchCallback s =
     startTimer
       (switchMode (if currentMode (timerState s) = Focus then Break else Focus) s)"

definition timeoutFires :: "pomodoro \<Rightarrow> pomodoro" where
  "timeoutFires s =
     (if pendingSwitches s = 0 then s
      else autoSwitchCallback (s\<lparr>pendingSwitches := pendingSwitches s - 1\<rparr>))"

text \<open>
  What can happen to the module: a call of its interface, a direct call of \<^verbatim>\<open>tick\<close> or
  of \<^verbatim>\<open>handleTimerComplete\<close>, a second passing, a pending timeout firing.
\<close>

datatype event =
    StartTimer
  | PauseTimer
  | ResumeTimer
  | ResetTimer
  | SwitchMode mode
  | UpdateConfig config_patch
  | Tick
  | TimerComplete
  | SecondElapses
  | TimeoutFires

fun step :: "event \<Rightarrow> pomodoro \<Rightarrow> pomodoro" where
  "step StartTimer s = startTimer s"
| "step PauseTimer s = pauseTimer s"
| "step ResumeTimer s = resumeTimer s"
| "step ResetTimer s = resetTimer s"
| "step (SwitchMode m) s = switchMode m s"
| "step (UpdateConfig p) s = updateConfig p s"
| "step Tick s = tick s"
| "step TimerComplete s = handleTimerComplete s"
| "step SecondElapses s = secondElapses s"
| "step TimeoutFires s = timeoutFires s"

fun run :: "event list \<Rightarrow> pomodoro \<Rightarrow> pomodoro" where
  "run [] s = s"
| "run (e # es) s = run es (step e s)"

text \<open>The module is idle: neither running nor paused, as it is when loaded.\<close>

definition idle :: "pomodoro \<Rightarrow> bool" where
  "idle s \<longleftrightarrow> \<not> isRunning (timerState s) \<and> \<not> isPaused (timerState s)"

text \<open>
  Two facts that hold of the module whatever is done to it (see \<open>run_flags_ok\<close> and
  \<open>run_sched_ok\<close> below): a paused timer counts as running, and at most one interval is
  live, namely the one \<open>timerInterval\<close> holds, and only while the timer runs unpaused.
\<close>

definition flags_ok :: "pomodoro \<Rightarrow> bool" where
  "flags_ok s \<longleftrightarrow> (isPaused (timerState s) \<longrightarrow> isRunning (timerState s))"

definition sched_ok :: "pomodoro \<Rightarrow> bool" where
  "sched_ok s \<longleftrightarrow>
     liveIntervals s = [] \<or>
     (isRunning (timerState s) \<and> \<not> isPaused (timerState s) \<and>
      (case timerInterval s of None \<Rightarrow> False | Some h \<Rightarrow> liveIntervals s = [h]))"

subsection \<open>Concrete configurations used below\<close>

text \<open>
  The configuration \<^verbatim>\<open>{focusTime: 5, breakTime: 2, autoSwitch: false}\<close>, installed in a
  freshly loaded module by \<^verbatim>\<open>updateConfig\<close>.
\<close>

definition scenarioA_patch :: config_patch where
  "scenarioA_patch =
     \<lparr>newFocusTime = Some (Fin 5), newBreakTime = Some (Fin 2),
      newAutoSwitch = Some False, newSoundEnabled = None\<rparr>"

definition scenarioA_start :: pomodoro where
  "scenarioA_start = updateConfig scenarioA_patch (initial empty_storage)"

text \<open>Any idle module in Focus mode under that configuration, with a full countdown.\<close>

definition scenarioA :: "pomodoro \<Rightarrow> bool" where
  "scenarioA s \<longleftrightarrow>
     focusTime (config s) = Fin 5 \<and> breakTime (config s) = Fin 2 \<and>
     \<not> autoSwitch (config s) \<and>
     currentMode (timerState s) = Focus \<and>
     timeRemaining (timerState s) = Fin 5 \<and> totalTime (timerState s) = Fin 5 \<and>
     idle s \<and> liveIntervals s = []"

text \<open>Stores whose cycle entry is a string, is not JSON, is a number, or cannot be read.\<close>

definition storage_with :: "stored_text \<Rightarrow> local_storage" where
  "storage_with txt = empty_storage\<lparr>items := [CYCLES \<mapsto> txt]\<rparr>"

definition unreadable_storage :: local_storage where
  "unreadable_storage = (storage_with (Json (JNum (Fin 7))))\<lparr>readable := False\<rparr>"

text \<open>A module whose countdown has reached zero while running.\<close>

definition at_zero :: "mode \<Rightarrow> pomodoro" where
  "at_zero m =
     (initial empty_storage)
       \<lparr>timerState := initial_timerState
          \<lparr>isRunning := True, currentMode := m, timeRemaining := Fin 0\<rparr>\<rparr>"

text \<open>
  Countdowns started after \<^verbatim>\<open>updateConfig\<close> was given a focus time of \<open>10 ^ 17\<close>
  seconds, and of a second and a half.
\<close>

definition focus_patch :: "js_number \<Rightarrow> config_patch" where
  "focus_patch x =
     \<lparr>newFocusTime = Some x, newBreakTime = None, newAutoSwitch = None,
      newSoundEnabled = None\<rparr>"

definition long_countdown :: pomodoro where
  "long_countdown = startTimer (updateConfig (focus_patch (Fin (10 ^ 17))) (initial empty_storage))"

definition fractional_countdown :: pomodoro where
  "fractional_countdown =
     startTimer (updateConfig (focus_patch (Fin (3 / 2))) (initial empty_storage))"

text \<open>
  A module that has loaded the cycle count \<open>2 ^ 53 = 9007199254740992\<close> from the store.
\<close>

definition many_cycles :: pomodoro where
  "many_cycles =
     loadCyclesFromStorage (initial (storage_with (Json (JNum (Fin 9007199254740992)))))"

section \<open>Properties\<close>

lemmas op_defs =
  startTimer_def pauseTimer_def resumeTimer_def resetTimer_def switchMode_def
  updateConfig_def tick_def handleTimerComplete_def timeoutFires_def autoSwitchCallback_def
  setInterval_def clearInterval_def saveCyclesToStorage_def saveConfigToStorage_def

lemmas store_defs =
  saveCycles_def loadCycles_def saveData_def loadData_def getItem_def setItem_def
  JSON_parse_def JSON_stringify_def saveTimerConfig_def config_value_def

lemmas init_defs =
  initial_def initial_timerState_def initial_config_def empty_storage_def

subsection \<open>Whole numbers are doubles\<close>

lemma round_half_even_of_int [simp]: "round_half_even (of_int m) = m"
  by (simp add: round_half_even_def)

lemma pow2_le_53: "(2::nat) ^ k \<le> 2 ^ 53 \<Longrightarrow> k \<le> 53"
  by (rule power_le_imp_le_exp [of "2::nat"]) simp_all

lemma floorlog_53:
  fixes x :: nat
  assumes "0 < x" and "x \<le> 2 ^ 53"
  shows "1 \<le> floorlog 2 x" and "floorlog 2 x \<le> 54"
    and "floorlog 2 x = 54 \<Longrightarrow> x = 2 ^ 53"
proof -
  define f where "f = floorlog 2 x"
  from floorlog_bounds [OF assms(1), of 2]
  have lo: "2 ^ (f - 1) \<le> x" by (simp add: f_def)
  have "f \<noteq> 0"
    using assms(1) by (simp add: f_def floorlog_eq_zero_iff)
  then show "1 \<le> floorlog 2 x" by (simp add: f_def)
  have "(2::nat) ^ (f - 1) \<le> 2 ^ 53" using lo assms(2) by (rule order_trans)
  then have "f - 1 \<le> 53" by (rule pow2_le_53)
  then show "floorlog 2 x \<le> 54" by (simp add: f_def)
  assume "floorlog 2 x = 54"
  then have "f - 1 = 53" by (simp add: f_def)
  then have "(2::nat) ^ 53 \<le> x" using lo by (simp only:)
  then show "x = 2 ^ 53" using assms(2) by (rule order_antisym [rotated])
qed

lemma floorlog2_eqI: "2 ^ k \<le> x \<Longrightarrow> x < 2 ^ Suc k \<Longrightarrow> floorlog 2 x = Suc k"
proof (rule order_antisym)
  assume "x < 2 ^ Suc k"
  then show "floorlog 2 x \<le> Suc k" by (rule floorlog_leI) simp_all
next
  assume "2 ^ k \<le> x"
  then show "Suc k \<le> floorlog 2 x" by (rule floorlog_ge_SucI) simp
qed

lemma binade_int:
  fixes n :: int
  assumes "n \<noteq> 0" and "\<bar>n\<bar> \<le> 2 ^ 53"
  shows "binade \<bar>of_int n\<bar> = int (floorlog 2 (nat \<bar>n\<bar>)) - 1"
proof -
  have "1 \<le> \<bar>n\<bar>" using assms(1) by linarith
  then have "(1::rat) \<le> of_int \<bar>n\<bar>" by (simp only: of_int_1_le_iff)
  then have one: "(1::rat) \<le> \<bar>of_int n\<bar>" by simp
  have "\<lfloor>of_int \<bar>n\<bar> :: rat\<rfloor> = \<bar>n\<bar>" by (rule floor_of_int)
  then have fl: "\<lfloor>\<bar>of_int n :: rat\<bar>\<rfloor> = \<bar>n\<bar>" by simp
  show ?thesis
    using one by (simp add: binade_def fl)
qed

lemma round_double_at:
  "x \<noteq> 0 \<Longrightarrow> binade \<bar>x\<bar> = e \<Longrightarrow> - 1022 \<le> e \<Longrightarrow> e < 1023 \<Longrightarrow>
   round_double x = Fin (of_int (round_half_even (x / pow2 (e - 52))) * pow2 (e - 52))"
  by (simp add: round_double_def Let_def max_def)

text \<open>Every whole number up to \<open>2 ^ 53\<close> in absolute value is a double.\<close>

lemma round_double_int:
  fixes n :: int
  assumes "\<bar>n\<bar> \<le> 2 ^ 53"
  shows "round_double (of_int n) = Fin (of_int n)"
proof (cases "n = 0")
  case True
  then show ?thesis by (simp add: round_double_def)
next
  case False
  define x where "x = nat \<bar>n\<bar>"
  define e where "e = int (floorlog 2 x) - 1"
  have x: "0 < x" "x \<le> 2 ^ 53"
    using False assms by (simp_all add: x_def nat_le_iff)
  have b: "binade \<bar>of_int n\<bar> = e"
    using False assms by (simp add: binade_int e_def x_def)
  have e: "0 \<le> e" "e \<le> 53"
    using floorlog_53(1,2) [OF x] by (simp_all add: e_def)
  have nz: "(of_int n :: rat) \<noteq> 0" using False by simp
  have "\<exists>m::int. (of_int n :: rat) / pow2 (e - 52) = of_int m"
  proof (cases "e = 53")
    case True
    then have "floorlog 2 x = 54" by (simp add: e_def)
    then have "x = 2 ^ 53" by (rule floorlog_53(3) [OF x])
    then have "\<bar>n\<bar> = 2 ^ 53" by (simp add: x_def nat_eq_iff)
    then have "n = 2 * 2 ^ 52 \<or> n = 2 * (- (2 ^ 52))" by (simp add: abs_if split: if_splits)
    then show ?thesis
    proof
      assume "n = 2 * 2 ^ 52"
      then have "(of_int n :: rat) / pow2 (e - 52) = of_int (2 ^ 52)"
        using True by (simp add: pow2_def)
      then show ?thesis ..
    next
      assume "n = 2 * (- (2 ^ 52))"
      then have "(of_int n :: rat) / pow2 (e - 52) = of_int (- (2 ^ 52))"
        using True by (simp add: pow2_def)
      then show ?thesis ..
    qed
  next
    case False
    then have "e - 52 \<le> 0" using e by simp
    then have "pow2 (e - 52) = 1 / 2 ^ nat (52 - e)"
      by (cases "e = 52") (simp_all add: pow2_def)
    then have "(of_int n :: rat) / pow2 (e - 52) = of_int (n * 2 ^ nat (52 - e))"
      by simp
    then show ?thesis ..
  qed
  then obtain m :: int where m: "(of_int n :: rat) / pow2 (e - 52) = of_int m" ..
  have p: "pow2 (e - 52) \<noteq> 0" by (simp add: pow2_def)
  have "of_int m * pow2 (e - 52) = (of_int n :: rat)"
    using m p by (simp add: field_simps)
  then show ?thesis
    using round_double_at [OF nz b] e by (simp add: m)
qed

lemma decrement_int:
  "1 - 2 ^ 53 \<le> k \<Longrightarrow> k \<le> 2 ^ 53 \<Longrightarrow> decrement (Fin (of_int k)) = Fin (of_int (k - 1))"
  using round_double_int [of "k - 1"] by simp

lemma increment_int:
  "- (2 ^ 53) \<le> c \<Longrightarrow> c < 2 ^ 53 \<Longrightarrow> increment (Fin (of_int c)) = Fin (of_int (c + 1))"
  using round_double_int [of "c + 1"] by simp

lemma round_double_numeral:
  "numeral w \<le> (2 ^ 53 :: int) \<Longrightarrow> round_double (numeral w) = Fin (numeral w)"
  using round_double_int [of "numeral w"] by simp

lemma round_double_0: "round_double 0 = Fin 0"
  by (simp add: round_double_def)

lemma round_double_1: "round_double 1 = Fin 1"
  using round_double_int [of 1] by simp

lemmas round_double_simps = round_double_numeral round_double_0 round_double_1

subsection \<open>Where the double falls short\<close>

lemma decrement_big: "decrement (Fin 100000000000000000) = Fin 100000000000000000"
proof -
  have "floorlog 2 (nat \<lfloor>100000000000000000 - 1 :: rat\<rfloor>) = Suc 56"
    by (rule floorlog2_eqI) simp_all
  then have b: "binade \<bar>100000000000000000 - 1\<bar> = 56"
    by (simp add: binade_def)
  have f: "\<lfloor>99999999999999999 / 16 :: rat\<rfloor> = 6249999999999999"
    by (rule floor_unique) simp_all
  show ?thesis
    using round_double_at [OF _ b] by (simp add: pow2_def round_half_even_def f)
qed

lemma increment_2_53: "increment (Fin 9007199254740992) = Fin 9007199254740992"
proof -
  have "floorlog 2 (nat \<lfloor>9007199254740992 + 1 :: rat\<rfloor>) = Suc 53"
    by (rule floorlog2_eqI) simp_all
  then have b: "binade \<bar>9007199254740992 + 1\<bar> = 53"
    by (simp add: binade_def)
  have f: "\<lfloor>9007199254740993 / 2 :: rat\<rfloor> = 4503599627370496"
    by (rule floor_unique) simp_all
  show ?thesis
    using round_double_at [OF _ b] by (simp add: pow2_def round_half_even_def f)
qed

lemma decrement_fraction:
  "decrement (Fin (3 / 2)) = Fin (1 / 2)" "decrement (Fin (1 / 2)) = Fin (- 1 / 2)"
proof -
  have "floorlog 2 (Suc 0) = Suc 0"
    by (rule floorlog2_eqI) simp_all
  then have b: "binade \<bar>1 / 2\<bar> = - 1" "binade \<bar>- 1 / 2\<bar> = - 1"
    by (simp_all add: binade_def)
  show "decrement (Fin (3 / 2)) = Fin (1 / 2)"
    using round_double_at [OF _ b(1)] by (simp add: pow2_def round_half_even_def)
  show "decrement (Fin (1 / 2)) = Fin (- 1 / 2)"
    using round_double_at [OF _ b(2)] by (simp add: pow2_def round_half_even_def)
qed

subsection \<open>What every operation preserves\<close>

lemma flags_ok_tick: "flags_ok s \<Longrightarrow> flags_ok (tick s)"
  by (simp add: flags_ok_def op_defs Let_def split: option.splits)

lemma flags_ok_fireIntervals: "flags_ok s \<Longrightarrow> flags_ok (fireIntervals hs s)"
  by (induction hs arbitrary: s) (simp_all add: flags_ok_tick)

lemma flags_ok_step: "flags_ok s \<Longrightarrow> flags_ok (step e s)"
proof (cases e)
  case SecondElapses
  assume "flags_ok s"
  then show ?thesis
    using SecondElapses by (simp add: secondElapses_def flags_ok_fireIntervals)
next
  case Tick
  assume "flags_ok s"
  then show ?thesis
    using Tick by (simp add: flags_ok_tick)
qed (auto simp: flags_ok_def op_defs Let_def split: option.splits)

lemma run_flags_ok: "flags_ok s \<Longrightarrow> flags_ok (run es s)"
  by (induction es arbitrary: s) (simp_all add: flags_ok_step)

lemma idle_flags_ok: "idle s \<Longrightarrow> flags_ok s"
  by (simp add: idle_def flags_ok_def)

lemma sched_ok_tick: "sched_ok s \<Longrightarrow> sched_ok (tick s)"
  by (auto simp: sched_ok_def op_defs Let_def split: option.splits)

lemma secondElapses_sched:
  "sched_ok s \<Longrightarrow> secondElapses s = (if liveIntervals s = [] then s else tick s)"
  by (auto simp: sched_ok_def secondElapses_def split: option.splits)

lemma sched_ok_step: "sched_ok s \<Longrightarrow> sched_ok (step e s)"
proof (cases e)
  case SecondElapses
  assume "sched_ok s"
  then show ?thesis
    using SecondElapses by (simp add: secondElapses_sched sched_ok_tick)
next
  case Tick
  assume "sched_ok s"
  then show ?thesis
    using Tick by (simp add: sched_ok_tick)
qed (auto simp: sched_ok_def op_defs Let_def split: option.splits)

lemma run_sched_ok: "sched_ok s \<Longrightarrow> sched_ok (run es s)"
  by (induction es arbitrary: s) (simp_all add: sched_ok_step)

subsection \<open>Counting down\<close>

lemma timeRemaining_tick:
  "timeRemaining (timerState (tick s)) =
     (if positive (timeRemaining (timerState s)) then decrement (timeRemaining (timerState s))
      else timeRemaining (timerState s))"
  by (simp add: op_defs Let_def split: option.splits)

lemma tick_whole:
  assumes "timeRemaining (timerState s) = Fin (of_int k)" and "0 \<le> k" and "k \<le> 2 ^ 53"
  shows "timeRemaining (timerState (tick s)) = Fin (of_int (max 0 (k - 1)))"
proof (cases "0 < k")
  case True
  then have "1 - 2 ^ 53 \<le> k" by simp
  then have "decrement (Fin (of_int k)) = Fin (of_int (k - 1))"
    using assms(3) by (rule decrement_int)
  then show ?thesis
    using True assms(1) by (simp add: timeRemaining_tick max_def)
next
  case False
  then have "k = 0" using assms(2) by simp
  then show ?thesis
    using assms(1) by (simp add: timeRemaining_tick)
qed

lemma ticks_whole:
  "timeRemaining (timerState s) = Fin (of_int k) \<Longrightarrow> 0 \<le> k \<Longrightarrow> k \<le> 2 ^ 53 \<Longrightarrow>
   timeRemaining (timerState ((tick ^^ n) s)) = Fin (of_int (max 0 (k - int n)))"
proof (induction n arbitrary: s k)
  case 0
  then show ?case by simp
next
  case (Suc n)
  have "timeRemaining (timerState (tick s)) = Fin (of_int (max 0 (k - 1)))"
    using Suc.prems by (rule tick_whole)
  moreover have "0 \<le> max 0 (k - 1)" "max 0 (k - 1) \<le> 2 ^ 53"
    using Suc.prems(3) by simp_all
  ultimately have "timeRemaining (timerState ((tick ^^ n) (tick s))) =
      Fin (of_int (max 0 (max 0 (k - 1) - int n)))"
    by (rule Suc.IH)
  moreover have "max 0 (max 0 (k - 1) - int n) = max 0 (k - int (Suc n))"
    by (simp add: max_def)
  ultimately show ?case
    by (simp only: funpow_Suc_right o_apply)
qed

lemma secondElapses_idle: "liveIntervals s = [] \<Longrightarrow> secondElapses s = s"
  by (simp add: secondElapses_def)

lemma seconds_idle: "liveIntervals s = [] \<Longrightarrow> (secondElapses ^^ n) s = s"
  by (induction n) (simp_all add: secondElapses_idle)

lemma secondElapses_single: "liveIntervals s = [h] \<Longrightarrow> secondElapses s = tick s"
  by (simp add: secondElapses_def)

lemma liveIntervals_tick:
  "liveIntervals s = [h] \<Longrightarrow>
   liveIntervals (tick s) = [h] \<or>
   (liveIntervals (tick s) = [] \<and> \<not> positive (timeRemaining (timerState s)))"
  by (auto simp: op_defs Let_def split: option.splits)

lemma seconds_whole:
  "liveIntervals s = [h] \<Longrightarrow>
   timeRemaining (timerState s) = Fin (of_int k) \<Longrightarrow> 0 \<le> k \<Longrightarrow> k \<le> 2 ^ 53 \<Longrightarrow>
   timeRemaining (timerState ((secondElapses ^^ n) s)) = Fin (of_int (max 0 (k - int n)))"
proof (induction n arbitrary: s k)
  case 0
  then show ?case by simp
next
  case (Suc n)
  have unroll: "(secondElapses ^^ Suc n) s = (secondElapses ^^ n) (tick s)"
    using Suc.prems(1) by (simp add: funpow_swap1 secondElapses_single)
  have after: "timeRemaining (timerState (tick s)) = Fin (of_int (max 0 (k - 1)))"
    using Suc.prems(2-4) by (rule tick_whole)
  have bounds: "0 \<le> max 0 (k - 1)" "max 0 (k - 1) \<le> 2 ^ 53"
    using Suc.prems(4) by simp_all
  have arith: "max 0 (max 0 (k - 1) - int n) = max 0 (k - int (Suc n))"
    by (simp add: max_def)
  from liveIntervals_tick [OF Suc.prems(1)] show ?case
  proof
    assume "liveIntervals (tick s) = [h]"
    then have "timeRemaining (timerState ((secondElapses ^^ n) (tick s))) =
        Fin (of_int (max 0 (max 0 (k - 1) - int n)))"
      using after bounds by (rule Suc.IH)
    then show ?thesis
      by (simp only: unroll arith)
  next
    assume stopped: "liveIntervals (tick s) = [] \<and> \<not> positive (timeRemaining (timerState s))"
    then have "k = 0"
      using Suc.prems(2,3) by simp
    moreover have "(secondElapses ^^ n) (tick s) = tick s"
      using stopped by (simp add: seconds_idle)
    ultimately show ?thesis
      using after by (simp only: unroll) simp
  qed
qed

subsection \<open>Resuming (C1)\<close>

text \<open>
  A paused timer is running (\<open>flags_ok\<close>), and there \<^verbatim>\<open>resumeTimer\<close> only clears the
  flag: no interval is set.
\<close>

lemma resumeTimer_paused:
  "isPaused (timerState s) \<Longrightarrow> isRunning (timerState s) \<Longrightarrow>
   resumeTimer s = s\<lparr>timerState := (timerState s)\<lparr>isPaused := False\<rparr>\<rparr>"
  by (simp add: op_defs)

text \<open>
  Claim C1 expects that \<^verbatim>\<open>resume()\<close> schedules ticks again, so that \<^verbatim>\<open>start()\<close>, two
  ticks, \<^verbatim>\<open>pause()\<close>, three ticks, \<^verbatim>\<open>resume()\<close>, three ticks end at
  \<open>totalTime - 5\<close>. The code does not get there. \<^verbatim>\<open>pauseTimer\<close> leaves \<open>isRunning\<close> true,
  so the \<^verbatim>\<open>startTimer\<close> that \<^verbatim>\<open>resumeTimer\<close> calls returns at its guard
  \<^verbatim>\<open>if (timerState.isRunning) return\<close> and no interval is set. From the freshly loaded
  module, whose total is 1500 seconds, the sequence ends at 1498, that is
  \<open>totalTime - 2\<close>, not at 1495: after \<^verbatim>\<open>resume()\<close> the timer is running and
  unpaused, yet no interval is live and the seconds that pass change nothing. (Were
  \<^verbatim>\<open>tick\<close> called directly eleven times instead, it would end at 1492, that is
  \<open>totalTime - 8\<close>: \<^verbatim>\<open>tick\<close> itself does not look at \<open>isPaused\<close>.)
\<close>

theorem resume_leaves_timer_stalled:
  "totalTime (timerState (initial ls)) = Fin 1500 \<and>
   timeRemaining (timerState
      (run [StartTimer, SecondElapses, SecondElapses, PauseTimer,
            SecondElapses, SecondElapses, SecondElapses, ResumeTimer,
            SecondElapses, SecondElapses, SecondElapses] (initial ls))) = Fin 1498 \<and>
   isRunning (timerState
      (run [StartTimer, SecondElapses, SecondElapses, PauseTimer,
            SecondElapses, SecondElapses, SecondElapses, ResumeTimer] (initial ls))) \<and>
   \<not> isPaused (timerState
      (run [StartTimer, SecondElapses, SecondElapses, PauseTimer,
            SecondElapses, SecondElapses, SecondElapses, ResumeTimer] (initial ls))) \<and>
   liveIntervals
      (run [StartTimer, SecondElapses, SecondElapses, PauseTimer,
            SecondElapses, SecondElapses, SecondElapses, ResumeTimer] (initial ls)) = [] \<and>
   timeRemaining (timerState
      (run [StartTimer, Tick, Tick, PauseTimer, Tick, Tick, Tick, ResumeTimer,
            Tick, Tick, Tick] (initial ls))) = Fin 1492"
  by (simp add: op_defs init_defs secondElapses_def Let_def round_double_simps)

text \<open>In the module loaded over an empty store.\<close>

theorem resume_leaves_timer_stalled_witness:
  "totalTime (timerState (initial empty_storage)) = Fin 1500 \<and>
   timeRemaining (timerState
      (run [StartTimer, SecondElapses, SecondElapses, PauseTimer,
            SecondElapses, SecondElapses, SecondElapses, ResumeTimer,
            SecondElapses, SecondElapses, SecondElapses] (initial empty_storage))) = Fin 1498 \<and>
   liveIntervals
      (run [StartTimer, SecondElapses, SecondElapses, PauseTimer,
            SecondElapses, SecondElapses, SecondElapses, ResumeTimer] (initial empty_storage)) = []"
  using resume_leaves_timer_stalled [of empty_storage]
  by simp

subsection \<open>Scenario A (C2)\<close>

text \<open>
  Five ticks bring a five-second countdown to zero, but \<^verbatim>\<open>tick\<close> completes the
  countdown only when it is called with nothing left: after start and exactly five ticks
  the timer is still running and no cycle has been counted.
\<close>

theorem scenarioA_five_ticks_counterexample:
  "scenarioA scenarioA_start \<and>
   isRunning (timerState
      (run [StartTimer, SecondElapses, SecondElapses, SecondElapses, SecondElapses,
            SecondElapses] scenarioA_start)) \<and>
   cycles (timerState scenarioA_start) = Fin 0 \<and>
   cycles (timerState
      (run [StartTimer, SecondElapses, SecondElapses, SecondElapses, SecondElapses,
            SecondElapses] scenarioA_start)) = Fin 0"
  by (simp add: scenarioA_def idle_def scenarioA_start_def scenarioA_patch_def assign_def
      op_defs store_defs init_defs secondElapses_def Let_def round_double_simps)

text \<open>
  Whether a completion schedules the switch of mode depends on \<open>autoSwitch\<close> alone.
\<close>

lemma autoSwitch_schedules_switch:
  "autoSwitch (config s) \<Longrightarrow>
   pendingSwitches (handleTimerComplete s) = Suc (pendingSwitches s)"
  by (simp add: op_defs Let_def split: option.splits)

text \<open>
  Claim C2, amended. Under the configuration \<^verbatim>\<open>{focusTime: 5, breakTime: 2,
  autoSwitch: false}\<close>, with a cycle count that is a whole number \<open>c\<close> from 0 and below
  \<open>2 ^ 53\<close>: after \<^verbatim>\<open>start()\<close> and five ticks the time remaining is 0, the timer is
  still running and the cycle count is unchanged; the sixth tick completes the countdown:
  the time remaining is 0, the timer is not running, the cycle count is \<open>c + 1\<close> and the
  mode is still Focus. No switch of mode occurs: the completion adds no pending timeout
  and leaves no interval live, so that, where none was pending before, a timeout firing
  and a further second change nothing.
\<close>

theorem scenarioA_six_ticks:
  assumes "scenarioA s" and "cycles (timerState s) = Fin (of_int c)"
    and "0 \<le> c" and "c < 2 ^ 53"
  shows
    "timeRemaining (timerState
        (run [StartTimer, SecondElapses, SecondElapses, SecondElapses, SecondElapses,
              SecondElapses] s)) = Fin 0 \<and>
     isRunning (timerState
        (run [StartTimer, SecondElapses, SecondElapses, SecondElapses, SecondElapses,
              SecondElapses] s)) \<and>
     cycles (timerState
        (run [StartTimer, SecondElapses, SecondElapses, SecondElapses, SecondElapses,
              SecondElapses] s)) = Fin (of_int c) \<and>
     timeRemaining (timerState
        (run [StartTimer, SecondElapses, SecondElapses, SecondElapses, SecondElapses,
              SecondElapses, SecondElapses] s)) = Fin 0 \<and>
     \<not> isRunning (timerState
        (run [StartTimer, SecondElapses, SecondElapses, SecondElapses, SecondElapses,
              SecondElapses, SecondElapses] s)) \<and>
     cycles (timerState
        (run [StartTimer, SecondElapses, SecondElapses, SecondElapses, SecondElapses,
              SecondElapses, SecondElapses] s)) = Fin (of_int (c + 1)) \<and>
     currentMode (timerState
        (run [StartTimer, SecondElapses, SecondElapses, SecondElapses, SecondElapses,
              SecondElapses, SecondElapses] s)) = Focus \<and>
     pendingSwitches
        (run [StartTimer, SecondElapses, SecondElapses, SecondElapses, SecondElapses,
              SecondElapses, SecondElapses] s) = pendingSwitches s \<and>
     liveIntervals
        (run [StartTimer, SecondElapses, SecondElapses, SecondElapses, SecondElapses,
              SecondElapses, SecondElapses] s) = [] \<and>
     (pendingSwitches s = 0 \<longrightarrow>
        run [StartTimer, SecondElapses, SecondElapses, SecondElapses, SecondElapses,
             SecondElapses, SecondElapses, TimeoutFires, SecondElapses] s =
        run [StartTimer, SecondElapses, SecondElapses, SecondElapses, SecondElapses,
             SecondElapses, SecondElapses] s)"
proof -
  have inc: "increment (Fin (of_int c)) = Fin (of_int (c + 1))"
    using assms(3,4) by (intro increment_int) simp_all
  show ?thesis
    using assms(1,2) inc
    by (simp add: scenarioA_def idle_def op_defs secondElapses_def Let_def round_double_simps)
qed

theorem scenarioA_six_ticks_witness:
  "scenarioA scenarioA_start \<and>
   cycles (timerState scenarioA_start) = Fin 0 \<and>
   pendingSwitches scenarioA_start = 0 \<and>
   timeRemaining (timerState
      (run [StartTimer, SecondElapses, SecondElapses, SecondElapses, SecondElapses,
            SecondElapses, SecondElapses] scenarioA_start)) = Fin 0 \<and>
   \<not> isRunning (timerState
      (run [StartTimer, SecondElapses, SecondElapses, SecondElapses, SecondElapses,
            SecondElapses, SecondElapses] scenarioA_start)) \<and>
   cycles (timerState
      (run [StartTimer, SecondElapses, SecondElapses, SecondElapses, SecondElapses,
            SecondElapses, SecondElapses] scenarioA_start)) = Fin 1 \<and>
   currentMode (timerState
      (run [StartTimer, SecondElapses, SecondElapses, SecondElapses, SecondElapses,
            SecondElapses, SecondElapses] scenarioA_start)) = Focus \<and>
   pendingSwitches
      (run [StartTimer, SecondElapses, SecondElapses, SecondElapses, SecondElapses,
            SecondElapses, SecondElapses] scenarioA_start) = 0 \<and>
   currentMode (timerState
      (run [StartTimer, SecondElapses, SecondElapses, SecondElapses, SecondElapses,
            SecondElapses, SecondElapses, TimeoutFires, SecondElapses] scenarioA_start)) = Focus"
proof -
  have start: "scenarioA scenarioA_start"
    by (simp add: scenarioA_def idle_def scenarioA_start_def scenarioA_patch_def assign_def
        op_defs store_defs init_defs Let_def)
  have more: "cycles (timerState scenarioA_start) = Fin (of_int 0)"
      "pendingSwitches scenarioA_start = 0"
    by (simp_all add: scenarioA_start_def scenarioA_patch_def assign_def
        op_defs store_defs init_defs Let_def)
  show ?thesis
    using start more scenarioA_six_ticks [OF start more(1)] by simp
qed

subsection \<open>Ticks (C3)\<close>

text \<open>
  The time remaining is a double that nothing validates; \<^verbatim>\<open>updateConfig\<close> installs
  whatever number it is given. With \<open>10 ^ 17\<close> seconds remaining, running and unpaused, a
  tick leaves \<open>10 ^ 17\<close>: the doubles there are 16 apart and \<open>10 ^ 17 - 1\<close> rounds back.
  With a second and a half remaining, two ticks leave \<open>- 1 / 2\<close>: \<^verbatim>\<open>tick\<close> tests
  \<^verbatim>\<open>timeRemaining > 0\<close> before it subtracts.
\<close>

theorem ticks_count_down_counterexample:
  "isRunning (timerState long_countdown) \<and>
   \<not> isPaused (timerState long_countdown) \<and>
   liveIntervals long_countdown = [0] \<and>
   timeRemaining (timerState long_countdown) = Fin (10 ^ 17) \<and>
   timeRemaining (timerState (tick long_countdown)) = Fin (10 ^ 17) \<and>
   timeRemaining (timerState (secondElapses long_countdown)) = Fin (10 ^ 17) \<and>
   isRunning (timerState fractional_countdown) \<and>
   \<not> isPaused (timerState fractional_countdown) \<and>
   liveIntervals fractional_countdown = [0] \<and>
   timeRemaining (timerState fractional_countdown) = Fin (3 / 2) \<and>
   timeRemaining (timerState (tick (tick fractional_countdown))) = Fin (- 1 / 2) \<and>
   timeRemaining (timerState (secondElapses (secondElapses fractional_countdown))) =
     Fin (- 1 / 2)"
  by (simp add: long_countdown_def fractional_countdown_def focus_patch_def assign_def
      op_defs store_defs init_defs secondElapses_def Let_def
      decrement_big decrement_fraction del: decrement.simps)

text \<open>
  Claim C3, amended. In a timer that is running and not paused and whose time remaining
  is a whole number \<open>k\<close> of seconds with \<open>0 \<le> k \<le> 2 ^ 53\<close>, \<open>n\<close> ticks lower the time
  remaining by exactly \<open>n\<close>, stopping at 0: it is \<open>max 0 (k - n)\<close>, never negative.
  This holds of \<open>n\<close> calls of \<^verbatim>\<open>tick\<close>, and of \<open>n\<close> seconds passing while the timer's
  interval is live.
\<close>

theorem ticks_count_down:
  assumes "isRunning (timerState s)" and "\<not> isPaused (timerState s)"
    and "timeRemaining (timerState s) = Fin (of_int k)" and "0 \<le> k" and "k \<le> 2 ^ 53"
  shows
    "timeRemaining (timerState ((tick ^^ n) s)) = Fin (of_int (max 0 (k - int n))) \<and>
     (liveIntervals s = [h] \<longrightarrow>
        timeRemaining (timerState ((secondElapses ^^ n) s)) =
          Fin (of_int (max 0 (k - int n))))"
  using assms(3-5) by (simp add: ticks_whole seconds_whole)

theorem ticks_count_down_witness:
  "isRunning (timerState (startTimer (initial empty_storage))) \<and>
   \<not> isPaused (timerState (startTimer (initial empty_storage))) \<and>
   timeRemaining (timerState (startTimer (initial empty_storage))) = Fin 1500 \<and>
   liveIntervals (startTimer (initial empty_storage)) = [0] \<and>
   timeRemaining (timerState ((tick ^^ 3) (startTimer (initial empty_storage)))) = Fin 1497 \<and>
   timeRemaining (timerState ((secondElapses ^^ 3) (startTimer (initial empty_storage)))) =
     Fin 1497 \<and>
   timeRemaining (timerState ((tick ^^ 2000) (startTimer (initial empty_storage)))) = Fin 0 \<and>
   timeRemaining (timerState ((secondElapses ^^ 2000) (startTimer (initial empty_storage)))) =
     Fin 0"
proof -
  let ?s = "startTimer (initial empty_storage)"
  have facts: "isRunning (timerState ?s)" "\<not> isPaused (timerState ?s)"
      "timeRemaining (timerState ?s) = Fin (of_int 1500)" "liveIntervals ?s = [0]"
    by (simp_all add: op_defs init_defs)
  have range: "(0::int) \<le> 1500" "(1500::int) \<le> 2 ^ 53"
    by simp_all
  show ?thesis
    using facts ticks_count_down [OF facts(1-3) range, of 3 0]
      ticks_count_down [OF facts(1-3) range, of 2000 0]
    by simp
qed

subsection \<open>Completion and the cycle count (C4)\<close>

text \<open>
  The cycle count is a double as well, and \<^verbatim>\<open>loadCyclesFromStorage\<close> takes any number
  from the store. At \<open>2 ^ 53 = 9007199254740992\<close> the increment is lost:
  \<open>2 ^ 53 + 1\<close> is no double and rounds back, so completing a Focus countdown leaves the
  count, and the stored count, at \<open>2 ^ 53\<close>.
\<close>

theorem completion_stalls_at_2_53_counterexample:
  "currentMode (timerState many_cycles) = Focus \<and>
   cycles (timerState many_cycles) = Fin 9007199254740992 \<and>
   cycles (timerState (handleTimerComplete many_cycles)) = Fin 9007199254740992 \<and>
   cycles (timerState (handleTimerComplete many_cycles)) \<noteq> Fin (9007199254740992 + 1) \<and>
   loadCycles (localStorage (handleTimerComplete many_cycles)) = JNum (Fin 9007199254740992)"
  by (simp add: many_cycles_def storage_with_def loadCyclesFromStorage_def
      op_defs store_defs init_defs Let_def increment_2_53 del: increment.simps)

text \<open>
  Claim C4, amended. When a countdown completes (\<^verbatim>\<open>tick\<close> with nothing left calls
  \<^verbatim>\<open>handleTimerComplete\<close>) in Focus mode, the cycle count is incremented as a double
  and handed to \<^verbatim>\<open>saveCycles\<close>; where the count is a whole number \<open>c\<close> from 0 and
  below \<open>2 ^ 53\<close>, it grows by exactly 1, and \<open>c + 1\<close> is the stored cycle entry when
  the store can be written, and what \<^verbatim>\<open>loadCycles\<close> returns when it can also be read.
  In Break mode the cycle count and the store are unchanged.
\<close>

theorem completion_counts_focus_cycles:
  "(currentMode (timerState s) = Focus \<longrightarrow>
      cycles (timerState (handleTimerComplete s)) = increment (cycles (timerState s)) \<and>
      localStorage (handleTimerComplete s) =
        saveCycles (localStorage s) (increment (cycles (timerState s)))) \<and>
   (currentMode (timerState s) = Focus \<and>
    cycles (timerState s) = Fin (of_int c) \<and> 0 \<le> c \<and> c < 2 ^ 53 \<longrightarrow>
      cycles (timerState (handleTimerComplete s)) = Fin (of_int (c + 1)) \<and>
      localStorage (handleTimerComplete s) =
        saveCycles (localStorage s) (Fin (of_int (c + 1))) \<and>
      (writable (localStorage s) \<longrightarrow>
         items (localStorage (handleTimerComplete s)) CYCLES =
           Some (Json (JNum (Fin (of_int (c + 1)))))) \<and>
      (writable (localStorage s) \<and> readable (localStorage s) \<longrightarrow>
         loadCycles (localStorage (handleTimerComplete s)) = JNum (Fin (of_int (c + 1))))) \<and>
   (currentMode (timerState s) = Break \<longrightarrow>
      cycles (timerState (handleTimerComplete s)) = cycles (timerState s) \<and>
      localStorage (handleTimerComplete s) = localStorage s) \<and>
   (\<not> positive (timeRemaining (timerState s)) \<longrightarrow> tick s = handleTimerComplete s)"
proof -
  have "increment (Fin (of_int c)) = Fin (of_int (c + 1))" if "0 \<le> c" and "c < 2 ^ 53"
    using that by (intro increment_int) simp_all
  then show ?thesis
    by (simp add: op_defs store_defs Let_def split: option.splits del: increment.simps)
qed

theorem completion_counts_focus_cycles_witness:
  "currentMode (timerState (at_zero Focus)) = Focus \<and>
   cycles (timerState (at_zero Focus)) = Fin 0 \<and>
   writable (localStorage (at_zero Focus)) \<and>
   readable (localStorage (at_zero Focus)) \<and>
   \<not> positive (timeRemaining (timerState (at_zero Focus))) \<and>
   cycles (timerState (tick (at_zero Focus))) = Fin 1 \<and>
   items (localStorage (tick (at_zero Focus))) CYCLES = Some (Json (JNum (Fin 1))) \<and>
   loadCycles (localStorage (tick (at_zero Focus))) = JNum (Fin 1) \<and>
   currentMode (timerState (at_zero Break)) = Break \<and>
   cycles (timerState (handleTimerComplete (at_zero Break))) = Fin 0 \<and>
   items (localStorage (handleTimerComplete (at_zero Break))) CYCLES = None"
proof -
  have facts: "currentMode (timerState (at_zero Focus)) = Focus"
      "cycles (timerState (at_zero Focus)) = Fin (of_int 0)"
      "writable (localStorage (at_zero Focus))"
      "readable (localStorage (at_zero Focus))"
      "\<not> positive (timeRemaining (timerState (at_zero Focus)))"
      "currentMode (timerState (at_zero Break)) = Break"
      "cycles (timerState (at_zero Break)) = Fin 0"
      "items (localStorage (at_zero Break)) CYCLES = None"
    by (simp_all add: at_zero_def init_defs)
  show ?thesis
    using facts completion_counts_focus_cycles [of "at_zero Focus" 0]
      completion_counts_focus_cycles [of "at_zero Break" 0]
    by auto
qed

subsection \<open>Switching the mode (C5)\<close>

text \<open>
  Claim C5. In every state \<open>s\<close> the module reaches from an idle state, for every mode
  \<open>m\<close> other than the current one, \<^verbatim>\<open>switchMode(m)\<close> leaves the time remaining equal
  to the total time, both equal to the duration configured for \<open>m\<close>, and the timer neither
  running nor paused; \<^verbatim>\<open>switchMode\<close> of the current mode changes nothing.
\<close>

theorem switchMode_resets_to_configured:
  assumes "idle s0" and "s = run es s0"
  shows
    "(m \<noteq> currentMode (timerState s) \<longrightarrow>
        timeRemaining (timerState (switchMode m s)) =
          totalTime (timerState (switchMode m s)) \<and>
        totalTime (timerState (switchMode m s)) =
          (case m of Focus \<Rightarrow> focusTime (config s) | Break \<Rightarrow> breakTime (config s)) \<and>
        \<not> isRunning (timerState (switchMode m s)) \<and>
        \<not> isPaused (timerState (switchMode m s)) \<and>
        currentMode (timerState (switchMode m s)) = m) \<and>
     (m = currentMode (timerState s) \<longrightarrow> switchMode m s = s)"
proof -
  have "flags_ok s"
    using assms by (simp add: idle_flags_ok run_flags_ok)
  then show ?thesis
    by (cases m) (auto simp: flags_ok_def op_defs Let_def split: option.splits)
qed

theorem switchMode_resets_to_configured_witness:
  "idle (initial empty_storage) \<and>
   Break \<noteq> currentMode (timerState
      (run [StartTimer, SecondElapses, PauseTimer] (initial empty_storage))) \<and>
   timeRemaining (timerState (switchMode Break
      (run [StartTimer, SecondElapses, PauseTimer] (initial empty_storage)))) = Fin 300 \<and>
   totalTime (timerState (switchMode Break
      (run [StartTimer, SecondElapses, PauseTimer] (initial empty_storage)))) = Fin 300 \<and>
   \<not> isRunning (timerState (switchMode Break
      (run [StartTimer, SecondElapses, PauseTimer] (initial empty_storage)))) \<and>
   \<not> isPaused (timerState (switchMode Break
      (run [StartTimer, SecondElapses, PauseTimer] (initial empty_storage)))) \<and>
   switchMode Focus (run [StartTimer, SecondElapses, PauseTimer] (initial empty_storage)) =
     run [StartTimer, SecondElapses, PauseTimer] (initial empty_storage)"
proof -
  let ?s = "run [StartTimer, SecondElapses, PauseTimer] (initial empty_storage)"
  have facts: "idle (initial empty_storage)" "currentMode (timerState ?s) = Focus"
      "breakTime (config ?s) = Fin 300"
    by (simp_all add: idle_def op_defs init_defs secondElapses_def Let_def)
  show ?thesis
    using facts
      switchMode_resets_to_configured [of "initial empty_storage" ?s
        "[StartTimer, SecondElapses, PauseTimer]" Break, OF facts(1) refl]
      switchMode_resets_to_configured [of "initial empty_storage" ?s
        "[StartTimer, SecondElapses, PauseTimer]" Focus, OF facts(1) refl]
    by simp
qed

subsection \<open>Resetting (C6)\<close>

text \<open>
  Claim C6. Whatever the state before, \<^verbatim>\<open>reset()\<close> leaves the time remaining equal to
  the total time and the timer neither running nor paused, and it changes neither the
  mode nor the cycle count (nor the total time).
\<close>

theorem resetTimer_restores_total:
  "timeRemaining (timerState (resetTimer s)) = totalTime (timerState (resetTimer s)) \<and>
   \<not> isRunning (timerState (resetTimer s)) \<and>
   \<not> isPaused (timerState (resetTimer s)) \<and>
   currentMode (timerState (resetTimer s)) = currentMode (timerState s) \<and>
   cycles (timerState (resetTimer s)) = cycles (timerState s) \<and>
   totalTime (timerState (resetTimer s)) = totalTime (timerState s)"
  by (simp add: op_defs Let_def split: option.splits)

theorem resetTimer_restores_total_witness:
  "timeRemaining (timerState
      (run [StartTimer, SecondElapses, SecondElapses, PauseTimer] (initial empty_storage))) = Fin 1498 \<and>
   isPaused (timerState
      (run [StartTimer, SecondElapses, SecondElapses, PauseTimer] (initial empty_storage))) \<and>
   timeRemaining (timerState (resetTimer
      (run [StartTimer, SecondElapses, SecondElapses, PauseTimer] (initial empty_storage)))) = Fin 1500 \<and>
   \<not> isRunning (timerState (resetTimer
      (run [StartTimer, SecondElapses, SecondElapses, PauseTimer] (initial empty_storage)))) \<and>
   \<not> isPaused (timerState (resetTimer
      (run [StartTimer, SecondElapses, SecondElapses, PauseTimer] (initial empty_storage)))) \<and>
   currentMode (timerState (resetTimer
      (run [StartTimer, SecondElapses, SecondElapses, PauseTimer] (initial empty_storage)))) = Focus \<and>
   cycles (timerState (resetTimer
      (run [StartTimer, SecondElapses, SecondElapses, PauseTimer] (initial empty_storage)))) = Fin 0"
proof -
  let ?s = "run [StartTimer, SecondElapses, SecondElapses, PauseTimer] (initial empty_storage)"
  have facts: "timeRemaining (timerState ?s) = Fin 1498" "isPaused (timerState ?s)"
      "totalTime (timerState ?s) = Fin 1500" "currentMode (timerState ?s) = Focus"
      "cycles (timerState ?s) = Fin 0"
    by (simp_all add: op_defs init_defs secondElapses_def Let_def round_double_simps)
  show ?thesis
    using facts resetTimer_restores_total [of ?s] by simp
qed

subsection \<open>Pausing (C7)\<close>

text \<open>
  Claim C7. \<^verbatim>\<open>pause()\<close> changes nothing unless the timer is running and not paused.
  When it applies, the timer is paused and still running; the time remaining, the mode,
  the total time and the cycle count are as before; and ticking is cancelled: the
  interval that \<open>timerInterval\<close> holds is no longer live, so that, where it was the only
  live one, none is left and a second passing changes nothing.
\<close>

theorem pauseTimer_effect:
  "(\<not> (isRunning (timerState s) \<and> \<not> isPaused (timerState s)) \<longrightarrow> pauseTimer s = s) \<and>
   (isRunning (timerState s) \<and> \<not> isPaused (timerState s) \<longrightarrow>
      isPaused (timerState (pauseTimer s)) \<and>
      isRunning (timerState (pauseTimer s)) \<and>
      timeRemaining (timerState (pauseTimer s)) = timeRemaining (timerState s) \<and>
      currentMode (timerState (pauseTimer s)) = currentMode (timerState s) \<and>
      totalTime (timerState (pauseTimer s)) = totalTime (timerState s) \<and>
      cycles (timerState (pauseTimer s)) = cycles (timerState s) \<and>
      (\<forall>h. timerInterval s = Some h \<longrightarrow> h \<notin> set (liveIntervals (pauseTimer s))) \<and>
      (sched_ok s \<longrightarrow>
         liveIntervals (pauseTimer s) = [] \<and> secondElapses (pauseTimer s) = pauseTimer s))"
  by (auto simp: op_defs sched_ok_def secondElapses_def Let_def split: option.splits)

theorem pauseTimer_effect_witness:
  "isRunning (timerState (run [StartTimer, SecondElapses] (initial empty_storage))) \<and>
   \<not> isPaused (timerState (run [StartTimer, SecondElapses] (initial empty_storage))) \<and>
   sched_ok (run [StartTimer, SecondElapses] (initial empty_storage)) \<and>
   timerInterval (run [StartTimer, SecondElapses] (initial empty_storage)) = Some 0 \<and>
   liveIntervals (run [StartTimer, SecondElapses] (initial empty_storage)) = [0] \<and>
   isPaused (timerState (pauseTimer (run [StartTimer, SecondElapses] (initial empty_storage)))) \<and>
   isRunning (timerState (pauseTimer (run [StartTimer, SecondElapses] (initial empty_storage)))) \<and>
   timeRemaining (timerState
      (pauseTimer (run [StartTimer, SecondElapses] (initial empty_storage)))) = Fin 1499 \<and>
   liveIntervals (pauseTimer (run [StartTimer, SecondElapses] (initial empty_storage))) = [] \<and>
   \<not> isRunning (timerState (initial empty_storage)) \<and>
   pauseTimer (initial empty_storage) = initial empty_storage"
proof -
  let ?s = "run [StartTimer, SecondElapses] (initial empty_storage)"
  have facts: "isRunning (timerState ?s)" "\<not> isPaused (timerState ?s)" "sched_ok ?s"
      "timerInterval ?s = Some 0" "liveIntervals ?s = [0]"
      "timeRemaining (timerState ?s) = Fin 1499"
      "\<not> isRunning (timerState (initial empty_storage))"
    by (simp_all add: sched_ok_def op_defs init_defs secondElapses_def Let_def round_double_simps)
  show ?thesis
    using facts pauseTimer_effect [of ?s] pauseTimer_effect [of "initial empty_storage"]
    by simp
qed

subsection \<open>Idempotence (C8)\<close>

text \<open>
  Claim C8. From any state, \<^verbatim>\<open>start()\<close> twice gives the state that \<^verbatim>\<open>start()\<close> once
  gives, and \<^verbatim>\<open>pause()\<close> twice the state that \<^verbatim>\<open>pause()\<close> once gives.
\<close>

theorem start_pause_idempotent:
  "startTimer (startTimer s) = startTimer s \<and> pauseTimer (pauseTimer s) = pauseTimer s"
  by (simp add: op_defs Let_def split: option.splits)

theorem start_pause_idempotent_witness:
  "startTimer (startTimer (initial empty_storage)) = startTimer (initial empty_storage) \<and>
   startTimer (initial empty_storage) \<noteq> initial empty_storage \<and>
   pauseTimer (pauseTimer (startTimer (initial empty_storage))) =
     pauseTimer (startTimer (initial empty_storage)) \<and>
   pauseTimer (startTimer (initial empty_storage)) \<noteq> startTimer (initial empty_storage)"
proof -
  have "isRunning (timerState (startTimer (initial empty_storage))) \<noteq>
      isRunning (timerState (initial empty_storage))"
    by (simp add: op_defs init_defs)
  then have a: "startTimer (initial empty_storage) \<noteq> initial empty_storage"
    by auto
  have "isPaused (timerState (pauseTimer (startTimer (initial empty_storage)))) \<noteq>
      isPaused (timerState (startTimer (initial empty_storage)))"
    by (simp add: op_defs init_defs)
  then have b: "pauseTimer (startTimer (initial empty_storage)) \<noteq> startTimer (initial empty_storage)"
    by auto
  show ?thesis
    using a b start_pause_idempotent [of "initial empty_storage"]
      start_pause_idempotent [of "startTimer (initial empty_storage)"]
    by simp
qed

subsection \<open>Loading the cycle count (C9)\<close>

text \<open>
  \<^verbatim>\<open>loadCycles\<close> returns a stored value of another type as it is: with the JSON
  string \<^verbatim>\<open>"abc"\<close> stored under the cycle key it returns that string, not 0.
\<close>

theorem loadCycles_other_type_counterexample:
  "getItem (storage_with (Json (JStr ''abc''))) CYCLES = Inr (Some (Json (JStr ''abc''))) \<and>
   loadCycles (storage_with (Json (JStr ''abc''))) = JStr ''abc'' \<and>
   loadCycles (storage_with (Json (JStr ''abc''))) \<noteq> JNum (Fin 0)"
  by (simp add: storage_with_def store_defs init_defs CYCLES_def)

text \<open>
  Claim C9, amended. \<^verbatim>\<open>loadCycles\<close> always returns a value: 0 when the store cannot
  be read, when the cycle key is missing and when the stored text is not JSON; otherwise
  the stored value as parsed, whatever its type. The type is checked by the timer's
  \<^verbatim>\<open>loadCyclesFromStorage\<close>, which takes the loaded value as the cycle count only when
  it is a number and otherwise keeps the count it had (0 in the freshly loaded module).
\<close>

theorem loadCycles_default:
  "(getItem ls CYCLES = Inl e \<longrightarrow> loadCycles ls = JNum (Fin 0)) \<and>
   (getItem ls CYCLES = Inr None \<longrightarrow> loadCycles ls = JNum (Fin 0)) \<and>
   (getItem ls CYCLES = Inr (Some Malformed) \<longrightarrow> loadCycles ls = JNum (Fin 0)) \<and>
   (getItem ls CYCLES = Inr (Some (Json v)) \<longrightarrow> loadCycles ls = v) \<and>
   cycles (timerState (loadCyclesFromStorage s)) =
     (case loadCycles (localStorage s) of
        JNum n \<Rightarrow> n
      | _ \<Rightarrow> cycles (timerState s))"
  by (auto simp: loadCycles_def loadData_def JSON_parse_def loadCyclesFromStorage_def
      split: js_value.splits)

theorem loadCycles_default_witness:
  "getItem unreadable_storage CYCLES = Inl SecurityError \<and>
   loadCycles unreadable_storage = JNum (Fin 0) \<and>
   getItem empty_storage CYCLES = Inr None \<and>
   loadCycles empty_storage = JNum (Fin 0) \<and>
   getItem (storage_with Malformed) CYCLES = Inr (Some Malformed) \<and>
   loadCycles (storage_with Malformed) = JNum (Fin 0) \<and>
   getItem (storage_with (Json (JNum (Fin 7)))) CYCLES = Inr (Some (Json (JNum (Fin 7)))) \<and>
   loadCycles (storage_with (Json (JNum (Fin 7)))) = JNum (Fin 7) \<and>
   cycles (timerState (loadCyclesFromStorage (initial (storage_with (Json (JNum (Fin 7))))))) = Fin 7 \<and>
   cycles (timerState (loadCyclesFromStorage (initial (storage_with (Json (JStr ''abc'')))))) = Fin 0"
proof -
  have gets: "getItem unreadable_storage CYCLES = Inl SecurityError"
      "getItem empty_storage CYCLES = Inr None"
      "getItem (storage_with Malformed) CYCLES = Inr (Some Malformed)"
      "getItem (storage_with (Json (JNum (Fin 7)))) CYCLES = Inr (Some (Json (JNum (Fin 7))))"
      "getItem (storage_with (Json (JStr ''abc''))) CYCLES = Inr (Some (Json (JStr ''abc'')))"
    by (simp_all add: unreadable_storage_def storage_with_def empty_storage_def getItem_def)
  have init: "localStorage (initial ls) = ls" "cycles (timerState (initial ls)) = Fin 0" for ls
    by (simp_all add: init_defs)
  show ?thesis
    using gets
      loadCycles_default [of unreadable_storage SecurityError]
      loadCycles_default [of empty_storage]
      loadCycles_default [of "storage_with Malformed"]
      loadCycles_default [of "storage_with (Json (JNum (Fin 7)))" _ "JNum (Fin 7)"
        "initial (storage_with (Json (JNum (Fin 7))))"]
      loadCycles_default [of "storage_with (Json (JStr ''abc''))" _ "JStr ''abc''"
        "initial (storage_with (Json (JStr ''abc'')))"]
    by (simp add: init)
qed

subsection \<open>Paused implies running (C10)\<close>

text \<open>
  Claim C10. In every state reached from an idle one (neither running nor paused) by any
  sequence of start, pause, resume, reset, mode switches, configuration updates, ticks,
  completions, seconds passing and pending timeouts firing, a paused timer is running:
  not running and paused never go together.
\<close>

theorem paused_implies_running:
  assumes "idle s0"
  shows
    "(isPaused (timerState (run es s0)) \<longrightarrow> isRunning (timerState (run es s0))) \<and>
     \<not> (\<not> isRunning (timerState (run es s0)) \<and> isPaused (timerState (run es s0)))"
proof -
  have "flags_ok (run es s0)"
    using assms by (simp add: idle_flags_ok run_flags_ok)
  then show ?thesis
    by (auto simp: flags_ok_def)
qed

theorem paused_implies_running_witness:
  "idle (initial empty_storage) \<and>
   isPaused (timerState (run [StartTimer, SecondElapses, PauseTimer] (initial empty_storage))) \<and>
   isRunning (timerState (run [StartTimer, SecondElapses, PauseTimer] (initial empty_storage)))"
proof -
  have facts: "idle (initial empty_storage)"
      "isPaused (timerState (run [StartTimer, SecondElapses, PauseTimer] (initial empty_storage)))"
    by (simp_all add: idle_def op_defs init_defs secondElapses_def Let_def)
  show ?thesis
    using facts
      paused_implies_running [OF facts(1), of "[StartTimer, SecondElapses, PauseTimer]"]
    by simp
qed

end
